theory Spec2Isabelle
  imports Main
begin

section \<open>Data model\<close>

text \<open>
  The relay of \<^verbatim>\<open>internal/app/app.go\<close>: two handlers for live channel updates, a
  backfill loop over the watched channel's history, a channel resolver and a webhook
  dispatcher. The Telegram client and the HTTP client are outside the program; they
  appear here as an environment of oracles, and everything the program does to the
  outside (HTTP POSTs, API calls, log lines) is recorded in an explicit world state.

  The repository holds a second copy of the package, without the backfill; there the
  text is lower-cased before it is sent, the identifier member of the JSON object is
  \<^verbatim>\<open>message_id\<close>, and the resolver takes the message instead of the channel
  identifier. The definitions below follow \<^verbatim>\<open>internal/app/app.go\<close>.
\<close>

subsection \<open>Telegram values\<close>

text \<open>\<^verbatim>\<open>tg.PeerClass\<close>: the three peer kinds.\<close>

datatype PeerClass = PeerUser int | PeerChat int | PeerChannel int

text \<open>\<^verbatim>\<open>tg.Message\<close>, with the fields the program reads: \<^verbatim>\<open>ID\<close>, \<^verbatim>\<open>PeerID\<close>
  and \<^verbatim>\<open>Message\<close> (the text).\<close>

record Message =
  msg_ID :: int
  msg_PeerID :: PeerClass
  msg_Message :: string

text \<open>\<^verbatim>\<open>tg.MessageClass\<close>: an empty message, a plain message or a service message.
  The two others carry their identifier only.\<close>

datatype MessageClass = MessageEmpty int | Message Message | MessageService int

text \<open>\<^verbatim>\<open>tg.Channel\<close> and \<^verbatim>\<open>tg.ChatClass\<close>.\<close>

record Channel =
  chan_ID :: int
  chan_AccessHash :: int

datatype ChatClass =
  ChatEmpty int | Chat int | ChatForbidden int | Channel Channel | ChannelForbidden int

text \<open>\<^verbatim>\<open>tg.InputChannel\<close> and \<^verbatim>\<open>tg.InputPeerChannel\<close>.\<close>

record InputChannel =
  ic_ChannelID :: int
  ic_AccessHash :: int

record InputPeerChannel =
  ip_ChannelID :: int
  ip_AccessHash :: int

text \<open>\<^verbatim>\<open>tg.MessagesGetHistoryRequest\<close> with the three fields the program sets.\<close>

record MessagesGetHistoryRequest =
  Peer :: InputPeerChannel
  OffsetID :: int
  Limit :: nat

text \<open>\<^verbatim>\<open>tg.MessagesMessagesClass\<close>, the answer to a history request.\<close>

datatype MessagesMessagesClass =
    MessagesMessages "MessageClass list"
  | MessagesMessagesSlice "MessageClass list"
  | MessagesChannelMessages "MessageClass list"
  | MessagesMessagesNotModified

text \<open>The two live updates the program registers a handler for.\<close>

datatype Update =
    UpdateNewChannelMessage MessageClass
  | UpdateEditChannelMessage MessageClass

subsection \<open>Configuration\<close>

record TgAppConfig =
  AppId :: int
  AppHash :: string
  ChatForWatch :: int
  WebhookUrl :: string

record Config =
  TgApp :: TgAppConfig

subsection \<open>Errors, log lines, HTTP\<close>

text \<open>Every error value the program builds or passes on. \<open>ApiError\<close> is an error of
  the Telegram client, \<open>PostError\<close> one of \<^verbatim>\<open>http.Post\<close>.\<close>

datatype error =
    ApiError string
  | FailedToFetchChannel string
  | NoChannelsFound
  | UnexpectedChatType
  | UnexpectedMessagesType
  | PostError string
  | UnexpectedStatusCode int

datatype log_entry = LogError string error | LogInfo string string

text \<open>The body of a POST is the JSON object that \<^verbatim>\<open>json.Marshal\<close> writes for a
  \<^verbatim>\<open>map[string]string\<close>: its members, name and string value, in the order of the
  output (\<^verbatim>\<open>encoding/json\<close> writes the keys of a map sorted). The escaping of the
  strings on the wire is not modelled.\<close>

record http_request =
  url :: string
  contentType :: string
  body :: "(string \<times> string) list"

datatype http_result = TransportError string | Response int

subsection \<open>Environment and world\<close>

text \<open>The oracles: what the outside answers. Each takes the number of earlier calls of
  its kind, so the same request may be answered differently over time.\<close>

record env =
  http_Post :: "nat \<Rightarrow> http_request \<Rightarrow> http_result"
  ChannelsGetChannels :: "nat \<Rightarrow> InputChannel list \<Rightarrow> string + ChatClass list"
  MessagesGetHistory :: "nat \<Rightarrow> MessagesGetHistoryRequest \<Rightarrow> string + MessagesMessagesClass"

text \<open>The world: the trace of every effect, oldest first.\<close>

record world =
  posts :: "http_request list"
  channel_lookups :: "InputChannel list list"
  history_requests :: "MessagesGetHistoryRequest list"
  logged :: "log_entry list"

definition world0 :: world where
  "world0 = \<lparr>posts = [], channel_lookups = [], history_requests = [], logged = []\<rparr>"

text \<open>What a Go function call ends in: a panic, or a returned \<^verbatim>\<open>error\<close>
  (\<open>None\<close> is \<^verbatim>\<open>nil\<close>).\<close>

datatype result = Panicked | Returned "error option"

section \<open>The program\<close>

subsection \<open>\<^verbatim>\<open>strconv.Itoa\<close>\<close>

definition digit_char :: "nat \<Rightarrow> char" where
  "digit_char d = ''0123456789'' ! d"

function digits10 :: "nat \<Rightarrow> string" where
  "digits10 n = (if n < 10 then [digit_char n] else digits10 (n div 10) @ [digit_char (n mod 10)])"
  by pat_completeness auto
termination
  by (relation "measure id") auto

declare digits10.simps [simp del]

definition Itoa :: "int \<Rightarrow> string" where
  "Itoa i = (if i < 0 then CHR ''-'' # digits10 (nat (- i)) else digits10 (nat i))"

subsection \<open>The webhook dispatcher\<close>

definition sendMessage ::
  "env \<Rightarrow> string \<Rightarrow> string \<Rightarrow> string \<Rightarrow> int \<Rightarrow> world \<Rightarrow> error option \<times> world" where
  "sendMessage e text webHookUrl messageType messageID w =
     (let postBody = [(''external_id'', Itoa messageID), (''text'', text),
                      (''type'', messageType)];
          req = \<lparr>url = webHookUrl, contentType = ''application/json'', body = postBody\<rparr>;
          resp = http_Post e (length (posts w)) req;
          w' = w\<lparr>posts := posts w @ [req]\<rparr>
      in case resp of
           TransportError err \<Rightarrow> (Some (PostError err), w')
         | Response statusCode \<Rightarrow>
             if statusCode \<noteq> 200 then (Some (UnexpectedStatusCode statusCode), w')
             else (None, w'))"

subsection \<open>The channel resolver\<close>

definition getChannel :: "env \<Rightarrow> int \<Rightarrow> world \<Rightarrow> (error + Channel) \<times> world" where
  "getChannel e channelID w =
     (let inputChannel = \<lparr>ic_ChannelID = channelID, ic_AccessHash = 0\<rparr>;
          r = ChannelsGetChannels e (length (channel_lookups w)) [inputChannel];
          w' = w\<lparr>channel_lookups := channel_lookups w @ [[inputChannel]]\<rparr>
      in case r of
           Inl err \<Rightarrow> (Inl (FailedToFetchChannel err), w')
         | Inr chats \<Rightarrow>
             (case chats of
                [] \<Rightarrow> (Inl NoChannelsFound, w')
              | c # _ \<Rightarrow>
                  (case c of
                     Channel channel \<Rightarrow> (Inr channel, w')
                   | _ \<Rightarrow> (Inl UnexpectedChatType, w'))))"

subsection \<open>Logging\<close>

definition log_Error :: "string \<Rightarrow> error \<Rightarrow> world \<Rightarrow> world" where
  "log_Error m err w = w\<lparr>logged := logged w @ [LogError m err]\<rparr>"

definition log_Info :: "string \<Rightarrow> string \<Rightarrow> world \<Rightarrow> world" where
  "log_Info m text w = w\<lparr>logged := logged w @ [LogInfo m text]\<rparr>"

subsection \<open>The live handlers\<close>

text \<open>
  Both handlers take the update's message. \<^verbatim>\<open>msg, _ := update.GetMessage().(*tg.Message)\<close>
  leaves \<^verbatim>\<open>msg\<close> nil for a payload that is not a plain message, and the unchecked
  assertion \<^verbatim>\<open>msg.GetPeerID().(*tg.PeerChannel)\<close> on the next line then panics; it also
  panics for a plain message whose peer is not a channel.
\<close>

definition handleEditChannelMessage :: "env \<Rightarrow> Config \<Rightarrow> MessageClass \<Rightarrow> world \<Rightarrow> result \<times> world" where
  "handleEditChannelMessage e cfg update w =
     (case update of
        Message msg \<Rightarrow>
          (case msg_PeerID msg of
             PeerChannel channelID \<Rightarrow>
               (case getChannel e channelID w of
                  (Inl err, w1) \<Rightarrow> (Returned (Some err), log_Error ''get channel'' err w1)
                | (Inr channel, w1) \<Rightarrow>
                    if chan_ID channel = ChatForWatch (TgApp cfg) then
                      (let text = msg_Message msg;
                           (err, w2) = sendMessage e text (WebhookUrl (TgApp cfg)) ''editMessage''
                                         (msg_ID msg) w1;
                           w3 = (case err of
                                   Some er \<Rightarrow> log_Error ''Error sending message'' er w2
                                 | None \<Rightarrow> w2)
                       in (Returned None, log_Info ''Message'' text w3))
                    else (Returned None, w1))
           | _ \<Rightarrow> (Panicked, w))
      | _ \<Rightarrow> (Panicked, w))"

definition handleNewChannelMessage :: "env \<Rightarrow> Config \<Rightarrow> MessageClass \<Rightarrow> world \<Rightarrow> result \<times> world" where
  "handleNewChannelMessage e cfg update w =
     (case update of
        Message msg \<Rightarrow>
          (case msg_PeerID msg of
             PeerChannel channelID \<Rightarrow>
               (case getChannel e channelID w of
                  (Inl err, w1) \<Rightarrow> (Returned (Some err), log_Error ''get channel'' err w1)
                | (Inr channel, w1) \<Rightarrow>
                    if chan_ID channel = ChatForWatch (TgApp cfg) then
                      (let text = msg_Message msg;
                           (err, w2) = sendMessage e text (WebhookUrl (TgApp cfg)) ''newMessage''
                                         (msg_ID msg) w1;
                           w3 = (case err of
                                   Some er \<Rightarrow> log_Error ''Error sending message'' er w2
                                 | None \<Rightarrow> w2)
                       in (Returned None, log_Info ''Message'' text w3))
                    else (Returned None, w1))
           | _ \<Rightarrow> (Panicked, w))
      | _ \<Rightarrow> (Panicked, w))"

text \<open>The registration in \<^verbatim>\<open>Run\<close>: \<^verbatim>\<open>d.OnEditChannelMessage\<close> and
  \<^verbatim>\<open>d.OnNewChannelMessage\<close>.\<close>

definition handleUpdate :: "env \<Rightarrow> Config \<Rightarrow> Update \<Rightarrow> world \<Rightarrow> result \<times> world" where
  "handleUpdate e cfg u w =
     (case u of
        UpdateNewChannelMessage m \<Rightarrow> handleNewChannelMessage e cfg m w
      | UpdateEditChannelMessage m \<Rightarrow> handleEditChannelMessage e cfg m w)"

subsection \<open>The backfill\<close>

text \<open>The inner loop of \<^verbatim>\<open>fetchAndProcessMessages\<close> over one page:
  \<^verbatim>\<open>for _, message := range history.Messages\<close>.\<close>

fun processMessages :: "env \<Rightarrow> Config \<Rightarrow> MessageClass list \<Rightarrow> world \<Rightarrow> world" where
  "processMessages e cfg [] w = w"
| "processMessages e cfg (message # rest) w =
     (case message of
        Message msg \<Rightarrow>
          (let text = msg_Message msg;
               (err, w2) = sendMessage e text (WebhookUrl (TgApp cfg)) ''oldMessage'' (msg_ID msg) w;
               w3 = (case err of
                       Some er \<Rightarrow> log_Error ''Error sending message'' er w2
                     | None \<Rightarrow> w2)
           in processMessages e cfg rest (log_Info ''Message'' text w3))
      | _ \<Rightarrow> processMessages e cfg rest w)"

text \<open>The outer loop \<^verbatim>\<open>for { ... }\<close>, from a cursor \<open>offsetID\<close>. Nothing in the
  program bounds the number of rounds, so not returning is the value \<open>None\<close>.
  \<^verbatim>\<open>history.Messages[len(history.Messages)-1].(*tg.Message).ID\<close> panics when the last
  entry of a full page is not a plain message.\<close>

partial_function (option) fetchLoop ::
  "env \<Rightarrow> Config \<Rightarrow> InputPeerChannel \<Rightarrow> int \<Rightarrow> world \<Rightarrow> (result \<times> world) option" where
  "fetchLoop e cfg peer offsetID w =
     (let req = \<lparr>Peer = peer, OffsetID = offsetID, Limit = 100\<rparr>;
          r = MessagesGetHistory e (length (history_requests w)) req;
          w1 = w\<lparr>history_requests := history_requests w @ [req]\<rparr>
      in case r of
           Inl err \<Rightarrow> Some (Returned (Some (ApiError err)), w1)
         | Inr messages \<Rightarrow>
             (case messages of
                MessagesChannelMessages history \<Rightarrow>
                  (let w2 = processMessages e cfg history w1 in
                   if length history < 100 then Some (Returned None, w2)
                   else (case last history of
                           Message msg \<Rightarrow> fetchLoop e cfg peer (msg_ID msg) w2
                         | _ \<Rightarrow> Some (Panicked, w2)))
              | _ \<Rightarrow> Some (Returned (Some UnexpectedMessagesType), w1)))"

declare fetchLoop.simps [code]

definition fetchAndProcessMessages :: "env \<Rightarrow> Config \<Rightarrow> world \<Rightarrow> (result \<times> world) option" where
  "fetchAndProcessMessages e cfg w =
     (case getChannel e (ChatForWatch (TgApp cfg)) w of
        (Inl err, w1) \<Rightarrow> Some (Returned (Some err), w1)
      | (Inr channel, w1) \<Rightarrow>
          fetchLoop e cfg \<lparr>ip_ChannelID = chan_ID channel, ip_AccessHash = chan_AccessHash channel\<rparr>
            0 w1)"

subsection \<open>A history behind the API\<close>

text \<open>
  This part is not the program: it is the behaviour of the history call
  (\<^verbatim>\<open>messages.getHistory\<close>) that the backfill relies on, and it enters the theorems
  about the backfill as a hypothesis on the environment (\<open>serves_history\<close>). The
  channel's history is a list of entries, newest first; a request with cursor \<open>0\<close>
  starts at the newest entry, a request with cursor \<open>c\<close> at the entries whose
  identifier is below \<open>c\<close>; at most \<open>Limit\<close> entries come back.
\<close>

fun message_id :: "MessageClass \<Rightarrow> int" where
  "message_id (MessageEmpty i) = i"
| "message_id (Message m) = msg_ID m"
| "message_id (MessageService i) = i"

definition older :: "int \<Rightarrow> MessageClass \<Rightarrow> bool" where
  "older c m = (c = 0 \<or> message_id m < c)"

definition history_page :: "MessageClass list \<Rightarrow> MessagesGetHistoryRequest \<Rightarrow> MessageClass list" where
  "history_page hist req = take (Limit req) (filter (older (OffsetID req)) hist)"

definition serves_history :: "env \<Rightarrow> MessageClass list \<Rightarrow> bool" where
  "serves_history e hist =
     (\<forall>n req. MessagesGetHistory e n req = Inr (MessagesChannelMessages (history_page hist req)))"

section \<open>Notions used in the statements\<close>




text \<open>The POSTs issued between an earlier world and a later one.\<close>

definition new_posts :: "world \<Rightarrow> world \<Rightarrow> http_request list" where
  "new_posts w w' = drop (length (posts w)) (posts w')"

text \<open>The plain messages of a page, in the page's order.\<close>

fun plain_messages :: "MessageClass list \<Rightarrow> Message list" where
  "plain_messages [] = []"
| "plain_messages (Message m # ms) = m # plain_messages ms"
| "plain_messages (_ # ms) = plain_messages ms"

text \<open>
  A history as the channel serves it: identifiers positive and strictly descending from
  the newest entry to the oldest, and a plain message at the end of every full page of
  100 (the entries 99, 199, ...; every other entry may be a service message).
\<close>

fun is_plain :: "MessageClass \<Rightarrow> bool" where
  "is_plain (Message m) = True"
| "is_plain _ = False"

definition descending_history :: "MessageClass list \<Rightarrow> bool" where
  "descending_history hist =
     (sorted_wrt (\<lambda>a b. message_id b < message_id a) hist \<and>
      list_all (\<lambda>m. 0 < message_id m) hist \<and>
      list_all (\<lambda>k. is_plain (hist ! (100 * k + 99))) [0..<length hist div 100])"

text \<open>The identifier of the last entry of each full page of 100, page by page.\<close>

definition page_ends :: "MessageClass list \<Rightarrow> int list" where
  "page_ends hist = map (\<lambda>k. message_id (hist ! (100 * k + 99))) [0..<length hist div 100]"


section \<open>Sample inputs\<close>

definition cfg42 :: Config where
  "cfg42 = \<lparr>TgApp = \<lparr>AppId = 1, AppHash = ''hash'', ChatForWatch = 42,
                      WebhookUrl = ''http://hook.example/relay''\<rparr>\<rparr>"

text \<open>An outside that answers every channel lookup with the channel asked for, serves
  the history \<open>hist\<close>, and answers the first POST with status 500 and the later ones
  with 200.\<close>

definition sample_env :: "MessageClass list \<Rightarrow> env" where
  "sample_env hist =
     \<lparr>http_Post = (\<lambda>n r. if n = 0 then Response 500 else Response 200),
      ChannelsGetChannels = (\<lambda>n cs.
        case cs of
          [c] \<Rightarrow> Inr [Channel \<lparr>chan_ID = ic_ChannelID c, chan_AccessHash = 77\<rparr>]
        | _ \<Rightarrow> Inl ''CHANNEL_INVALID''),
      MessagesGetHistory = (\<lambda>n req. Inr (MessagesChannelMessages (history_page hist req)))\<rparr>"

text \<open>An outside whose channel lookup fails.\<close>

definition down_env :: env where
  "down_env =
     \<lparr>http_Post = (\<lambda>n r. Response 200),
      ChannelsGetChannels = (\<lambda>n cs. Inl ''timeout''),
      MessagesGetHistory = (\<lambda>n req. Inl ''timeout'')\<rparr>"

definition hello :: "int \<Rightarrow> int \<Rightarrow> Message" where
  "hello i c = \<lparr>msg_ID = i, msg_PeerID = PeerChannel c, msg_Message = ''Hello''\<rparr>"

text \<open>A history of 100 plain messages, identifiers 100 down to 1.\<close>

definition hundred_messages :: "MessageClass list" where
  "hundred_messages = map (\<lambda>i. Message (hello (int i) 42)) (rev [1..<101])"

text \<open>A history of 100 entries whose oldest entry is a service message (as the entry
  that records the creation of a channel is): 99 plain messages, identifiers 100 down
  to 2, then the service message 1.\<close>

definition history_with_service_end :: "MessageClass list" where
  "history_with_service_end =
     map (\<lambda>i. Message (hello (int i) 42)) (rev [2..<101]) @ [MessageService 1]"

text \<open>Three entries: two plain messages around a service message.\<close>

definition three_entries :: "MessageClass list" where
  "three_entries = [Message (hello 3 42), MessageService 2, Message (hello 1 42)]"



section \<open>Decimal rendering\<close>







section \<open>Effects of the dispatcher and of the resolver\<close>

lemma sendMessage_world:
  "snd (sendMessage e text u t i w) =
     w\<lparr>posts := posts w @ [\<lparr>url = u, contentType = ''application/json'',
         body = [(''external_id'', Itoa i), (''text'', text), (''type'', t)]\<rparr>]\<rparr>"
  by (simp add: sendMessage_def Let_def split: http_result.splits)

lemma getChannel_world:
  "snd (getChannel e c w) =
     w\<lparr>channel_lookups := channel_lookups w @ [[\<lparr>ic_ChannelID = c, ic_AccessHash = 0\<rparr>]]\<rparr>"
  by (simp add: getChannel_def Let_def split: sum.splits list.splits ChatClass.splits)

lemma new_posts_append [simp]: "posts w' = posts w @ rs \<Longrightarrow> new_posts w w' = rs"
  by (simp add: new_posts_def)

lemma new_posts_same [simp]: "posts w' = posts w \<Longrightarrow> new_posts w w' = []"
  by (simp add: new_posts_def)

text \<open>What a handler does with a plain message of a channel peer, by the outcome of the
  channel lookup.\<close>

lemma handleNew_plain:
  assumes "msg_PeerID msg = PeerChannel c" and "getChannel e c w = (g, w1)"
  shows "handleNewChannelMessage e cfg (Message msg) w =
     (case g of
        Inl err \<Rightarrow> (Returned (Some err), log_Error ''get channel'' err w1)
      | Inr ch \<Rightarrow>
          if chan_ID ch = ChatForWatch (TgApp cfg) then
            (case sendMessage e (msg_Message msg) (WebhookUrl (TgApp cfg)) ''newMessage'' (msg_ID msg) w1 of
               (None, w2) \<Rightarrow> (Returned None, log_Info ''Message'' (msg_Message msg) w2)
             | (Some er, w2) \<Rightarrow>
                 (Returned None,
                  log_Info ''Message'' (msg_Message msg) (log_Error ''Error sending message'' er w2)))
          else (Returned None, w1))"
  using assms
  by (simp add: handleNewChannelMessage_def Let_def split: sum.splits prod.splits option.splits)

lemma handleEdit_plain:
  assumes "msg_PeerID msg = PeerChannel c" and "getChannel e c w = (g, w1)"
  shows "handleEditChannelMessage e cfg (Message msg) w =
     (case g of
        Inl err \<Rightarrow> (Returned (Some err), log_Error ''get channel'' err w1)
      | Inr ch \<Rightarrow>
          if chan_ID ch = ChatForWatch (TgApp cfg) then
            (case sendMessage e (msg_Message msg) (WebhookUrl (TgApp cfg)) ''editMessage'' (msg_ID msg) w1 of
               (None, w2) \<Rightarrow> (Returned None, log_Info ''Message'' (msg_Message msg) w2)
             | (Some er, w2) \<Rightarrow>
                 (Returned None,
                  log_Info ''Message'' (msg_Message msg) (log_Error ''Error sending message'' er w2)))
          else (Returned None, w1))"
  using assms
  by (simp add: handleEditChannelMessage_def Let_def split: sum.splits prod.splits option.splits)


lemma processMessages_posts:
  "posts (processMessages e cfg page w) =
     posts w @ map (\<lambda>m. \<lparr>url = WebhookUrl (TgApp cfg), contentType = ''application/json'',
                         body = [(''external_id'', Itoa (msg_ID m)), (''text'', msg_Message m), (''type'', ''oldMessage'')]\<rparr>)
                   (plain_messages page)"
proof (induction page arbitrary: w)
  case Nil
  show ?case by simp
next
  case (Cons message rest)
  show ?case
  proof (cases message)
    case (Message msg)
    obtain err w2 where s: "sendMessage e (msg_Message msg) (WebhookUrl (TgApp cfg)) ''oldMessage''
        (msg_ID msg) w = (err, w2)"
      by (cases "sendMessage e (msg_Message msg) (WebhookUrl (TgApp cfg)) ''oldMessage'' (msg_ID msg) w")
    have w2: "posts w2 = posts w @ [\<lparr>url = WebhookUrl (TgApp cfg), contentType = ''application/json'',
        body = [(''external_id'', Itoa (msg_ID msg)), (''text'', msg_Message msg), (''type'', ''oldMessage'')]\<rparr>]"
      using sendMessage_world [of e "msg_Message msg" "WebhookUrl (TgApp cfg)" "''oldMessage''" "msg_ID msg" w]
      by (simp add: s)
    show ?thesis
      by (cases err) (simp_all add: Message s Cons.IH w2 log_Info_def log_Error_def)
  qed (simp_all add: Cons.IH)
qed

lemma processMessages_frame:
  "channel_lookups (processMessages e cfg page w) = channel_lookups w \<and>
   history_requests (processMessages e cfg page w) = history_requests w"
proof (induction page arbitrary: w)
  case Nil
  show ?case by simp
next
  case (Cons message rest)
  show ?case
  proof (cases message)
    case (Message msg)
    obtain err w2 where s: "sendMessage e (msg_Message msg) (WebhookUrl (TgApp cfg)) ''oldMessage''
        (msg_ID msg) w = (err, w2)"
      by (cases "sendMessage e (msg_Message msg) (WebhookUrl (TgApp cfg)) ''oldMessage'' (msg_ID msg) w")
    have w2: "channel_lookups w2 = channel_lookups w \<and> history_requests w2 = history_requests w"
      using sendMessage_world [of e "msg_Message msg" "WebhookUrl (TgApp cfg)" "''oldMessage''" "msg_ID msg" w]
      by (simp add: s)
    show ?thesis
      by (cases err) (simp_all add: Message s Cons.IH w2 log_Info_def log_Error_def)
  qed (simp_all add: Cons.IH)
qed


section \<open>The backfill loop\<close>

text \<open>The loop makes no channel lookup: whenever it returns, the lookups are those it
  started with.\<close>

lemma fetchLoop_channel_lookups:
  assumes "fetchLoop e cfg peer offsetID w = Some y"
  shows "channel_lookups (snd y) = channel_lookups w"
proof (rule fetchLoop.raw_induct
    [where P = "\<lambda>e cfg peer offsetID w y. channel_lookups (snd y) = channel_lookups w", OF _ assms],
    goal_cases)
  case (1 loop e cfg peer offsetID w y)
  note IH = "1"(1) and body = "1"(2)
  from body show ?case
    by (auto simp: Let_def processMessages_frame
        split: sum.splits MessagesMessagesClass.splits if_splits MessageClass.splits
        dest!: IH)
qed


text \<open>The page loop and a history request do not touch each other's part of the world.\<close>

lemma sendMessage_history_requests_update:
  "sendMessage e text u t i (w\<lparr>history_requests := h\<rparr>) =
     (fst (sendMessage e text u t i w), (snd (sendMessage e text u t i w))\<lparr>history_requests := h\<rparr>)"
  by (simp add: sendMessage_def Let_def split: http_result.splits)

lemma log_history_requests_update:
  "log_Info m text (w\<lparr>history_requests := h\<rparr>) = (log_Info m text w)\<lparr>history_requests := h\<rparr>"
  "log_Error m err (w\<lparr>history_requests := h\<rparr>) = (log_Error m err w)\<lparr>history_requests := h\<rparr>"
  by (cases w; simp add: log_Info_def log_Error_def)+

lemma processMessages_history_requests_update:
  "processMessages e cfg page (w\<lparr>history_requests := h\<rparr>) =
     (processMessages e cfg page w)\<lparr>history_requests := h\<rparr>"
proof (induction page arbitrary: w)
  case Nil
  show ?case by simp
next
  case (Cons message rest)
  show ?case
  proof (cases message)
    case (Message msg)
    obtain err w2 where s: "sendMessage e (msg_Message msg) (WebhookUrl (TgApp cfg)) ''oldMessage''
        (msg_ID msg) w = (err, w2)"
      by (cases "sendMessage e (msg_Message msg) (WebhookUrl (TgApp cfg)) ''oldMessage'' (msg_ID msg) w")
    have "processMessages e cfg (message # rest) (w\<lparr>history_requests := h\<rparr>) =
        processMessages e cfg rest
          ((log_Info ''Message'' (msg_Message msg)
             (case err of Some er \<Rightarrow> log_Error ''Error sending message'' er w2 | None \<Rightarrow> w2))
           \<lparr>history_requests := h\<rparr>)"
      by (cases err)
        (simp_all add: Message sendMessage_history_requests_update s log_history_requests_update)
    also have "\<dots> = (processMessages e cfg (message # rest) w)\<lparr>history_requests := h\<rparr>"
      by (simp add: Cons.IH Message s)
    finally show ?thesis .
  qed (simp_all add: Cons.IH)
qed

lemma processMessages_append:
  "processMessages e cfg (xs @ ys) w = processMessages e cfg ys (processMessages e cfg xs w)"
proof (induction xs arbitrary: w)
  case Nil
  show ?case by simp
next
  case (Cons message rest)
  show ?case
    by (cases message) (simp_all add: Cons.IH Let_def split: prod.splits)
qed

text \<open>In a history with descending identifiers, the entries older than the entry at
  index \<open>i\<close> are those after it.\<close>

lemma filter_older_drop:
  assumes "sorted_wrt (\<lambda>a b. message_id b < message_id a) hist"
    and "i < length hist" and "0 < message_id (hist ! i)"
  shows "filter (older (message_id (hist ! i))) hist = drop (Suc i) hist"
proof -
  have split: "hist = take i hist @ hist ! i # drop (Suc i) hist"
    using assms(2) by (simp add: id_take_nth_drop)
  have s: "sorted_wrt (\<lambda>a b. message_id b < message_id a) (take i hist @ hist ! i # drop (Suc i) hist)"
    using assms(1) split by simp
  have before: "\<forall>x \<in> set (take i hist). \<not> older (message_id (hist ! i)) x"
    using s assms(3) by (auto simp: sorted_wrt_append older_def)
  have after: "\<forall>x \<in> set (drop (Suc i) hist). older (message_id (hist ! i)) x"
    using s by (auto simp: sorted_wrt_append older_def)
  have self: "\<not> older (message_id (hist ! i)) (hist ! i)"
    using assms(3) by (simp add: older_def)
  have "filter (older (message_id (hist ! i))) (take i hist @ hist ! i # drop (Suc i) hist) =
      drop (Suc i) hist"
    using before after self by (simp add: filter_empty_conv filter_id_conv)
  with split show ?thesis by simp
qed

lemma page_ends_step:
  assumes "100 \<le> length rest"
  shows "page_ends rest = message_id (rest ! 99) # page_ends (drop 100 rest)"
proof -
  have "length rest div 100 = Suc ((length rest - 100) div 100)"
    using assms by linarith
  then obtain n where n: "length rest div 100 = Suc n" "length (drop 100 rest) div 100 = n"
    by simp
  have idx: "\<And>k. k < n \<Longrightarrow> drop 100 rest ! (100 * k + 99) = rest ! (100 * Suc k + 99)"
    using assms by (simp add: add.commute add.left_commute)
  have "page_ends rest = map (\<lambda>k. message_id (rest ! (100 * k + 99))) (0 # map Suc [0..<n])"
    unfolding page_ends_def n by (simp only: map_Suc_upt upt_conv_Cons zero_less_Suc)
  also have "\<dots> = message_id (rest ! 99) # map (\<lambda>k. message_id (rest ! (100 * Suc k + 99))) [0..<n]"
    by (simp add: comp_def)
  also have "map (\<lambda>k. message_id (rest ! (100 * Suc k + 99))) [0..<n] = page_ends (drop 100 rest)"
    unfolding page_ends_def n using idx by simp
  finally show ?thesis .
qed

lemma page_ends_short: "length rest < 100 \<Longrightarrow> page_ends rest = []"
  by (simp add: page_ends_def)


text \<open>
  The loop on a served history. Started at a page boundary, with a cursor that selects
  the entries from that boundary on, it returns without an error; the world it leaves is
  the one the page loop leaves on all those entries, with one request for the cursor and
  one for the end of every full page added.
\<close>

lemma is_plain_iff: "is_plain x \<longleftrightarrow> (\<exists>m. x = Message m)"
  by (cases x) auto

lemma fetchLoop_history:
  assumes sv: "serves_history e hist" and ok: "descending_history hist"
  shows "rest = drop (100 * k) hist \<Longrightarrow> filter (older offsetID) hist = rest \<Longrightarrow>
     fetchLoop e cfg peer offsetID w =
       Some (Returned None,
             (processMessages e cfg rest w)
               \<lparr>history_requests := history_requests w @
                  map (\<lambda>c. \<lparr>Peer = peer, OffsetID = c, Limit = 100\<rparr>) (offsetID # page_ends rest)\<rparr>)"
proof (induction "length rest" arbitrary: rest k offsetID w rule: less_induct)
  case less
  let ?req = "\<lparr>Peer = peer, OffsetID = offsetID, Limit = 100\<rparr>"
  let ?w1 = "w\<lparr>history_requests := history_requests w @ [?req]\<rparr>"
  have page: "MessagesGetHistory e (length (history_requests w)) ?req =
      Inr (MessagesChannelMessages (take 100 rest))"
    using sv less.prems(2) by (simp add: serves_history_def history_page_def)
  show ?case
  proof (cases "length rest < 100")
    case True
    then have all: "take 100 rest = rest" by simp
    have "fetchLoop e cfg peer offsetID w = Some (Returned None, processMessages e cfg rest ?w1)"
      by (subst fetchLoop.simps) (simp add: page all True Let_def)
    then show ?thesis
      by (simp add: processMessages_history_requests_update page_ends_short True)
  next
    case False
    then have len: "100 \<le> length rest" by simp
    have in_hist: "100 * k + 99 < length hist"
      using len less.prems(1) by simp
    have nth: "rest ! 99 = hist ! (100 * k + 99)"
      using less.prems(1) in_hist by simp
    have "k < length hist div 100"
      using in_hist by linarith
    then have "is_plain (hist ! (100 * k + 99))"
      using ok by (simp add: descending_history_def list_all_iff)
    then obtain m where m: "rest ! 99 = Message m"
      using nth by (auto simp: is_plain_iff)
    have full: "length (take 100 rest) = 100"
      using len by simp
    then have "take 100 rest \<noteq> []"
      by auto
    then have "last (take 100 rest) = take 100 rest ! (length (take 100 rest) - 1)"
      by (rule last_conv_nth)
    then have last: "last (take 100 rest) = Message m"
      using m by (simp only: full) simp
    have "hist ! (100 * k + 99) \<in> set hist"
      using in_hist by simp
    then have pos: "0 < message_id (hist ! (100 * k + 99))"
      using ok by (simp add: descending_history_def list_all_iff)
    have id_m: "message_id (hist ! (100 * k + 99)) = msg_ID m"
      using nth m by (metis message_id.simps(2))
    have "sorted_wrt (\<lambda>a b. message_id b < message_id a) hist"
      using ok by (simp add: descending_history_def)
    then have "filter (older (message_id (hist ! (100 * k + 99)))) hist = drop (Suc (100 * k + 99)) hist"
      using in_hist pos by (rule filter_older_drop)
    then have cursor: "filter (older (msg_ID m)) hist = drop (100 * Suc k) hist"
      by (simp add: id_m)
    have rest': "drop 100 rest = drop (100 * Suc k) hist"
      using less.prems(1) by (simp add: add.commute)
    let ?w2 = "processMessages e cfg (take 100 rest) ?w1"
    have shorter: "length (drop 100 rest) < length rest"
      using len by simp
    have IH: "fetchLoop e cfg peer (msg_ID m) ?w2 =
        Some (Returned None,
              (processMessages e cfg (drop 100 rest) ?w2)
                \<lparr>history_requests := history_requests ?w2 @
                   map (\<lambda>c. \<lparr>Peer = peer, OffsetID = c, Limit = 100\<rparr>)
                     (msg_ID m # page_ends (drop 100 rest))\<rparr>)"
      using less.hyps [OF shorter rest'] cursor rest' by simp
    have step: "fetchLoop e cfg peer offsetID w = fetchLoop e cfg peer (msg_ID m) ?w2"
      by (subst fetchLoop.simps) (simp add: page len last Let_def)
    have requests: "history_requests ?w2 = history_requests w @ [?req]"
      by (simp add: processMessages_frame)
    have "processMessages e cfg (drop 100 rest) ?w2 = processMessages e cfg (take 100 rest @ drop 100 rest) ?w1"
      by (simp only: processMessages_append)
    then have world: "processMessages e cfg (drop 100 rest) ?w2 =
        (processMessages e cfg rest w)\<lparr>history_requests := history_requests w @ [?req]\<rparr>"
      by (simp add: processMessages_history_requests_update)
    show ?thesis
      unfolding step IH world requests
      by (simp add: page_ends_step [OF len] m)
  qed
qed


text \<open>The whole backfill on a served history.\<close>

lemma fetchAndProcessMessages_history:
  assumes "serves_history e hist" and "descending_history hist"
    and "fst (getChannel e (ChatForWatch (TgApp cfg)) w) = Inr channel"
  shows "fetchAndProcessMessages e cfg w =
     Some (Returned None,
           (processMessages e cfg hist
              (w\<lparr>channel_lookups := channel_lookups w @
                    [[\<lparr>ic_ChannelID = ChatForWatch (TgApp cfg), ic_AccessHash = 0\<rparr>]]\<rparr>))
             \<lparr>history_requests := history_requests w @
                map (\<lambda>c. \<lparr>Peer = \<lparr>ip_ChannelID = chan_ID channel, ip_AccessHash = chan_AccessHash channel\<rparr>,
                           OffsetID = c, Limit = 100\<rparr>)
                  (0 # page_ends hist)\<rparr>)"
proof -
  let ?w1 = "w\<lparr>channel_lookups := channel_lookups w @
      [[\<lparr>ic_ChannelID = ChatForWatch (TgApp cfg), ic_AccessHash = 0\<rparr>]]\<rparr>"
  have g: "getChannel e (ChatForWatch (TgApp cfg)) w = (Inr channel, ?w1)"
    using assms(3) getChannel_world [of e "ChatForWatch (TgApp cfg)" w]
    by (cases "getChannel e (ChatForWatch (TgApp cfg)) w") simp
  have all: "filter (older 0) hist = hist"
    by (simp add: older_def)
  have "fetchLoop e cfg \<lparr>ip_ChannelID = chan_ID channel, ip_AccessHash = chan_AccessHash channel\<rparr> 0 ?w1 =
      Some (Returned None,
            (processMessages e cfg hist ?w1)
              \<lparr>history_requests := history_requests ?w1 @
                 map (\<lambda>c. \<lparr>Peer = \<lparr>ip_ChannelID = chan_ID channel, ip_AccessHash = chan_AccessHash channel\<rparr>,
                            OffsetID = c, Limit = 100\<rparr>)
                   (0 # page_ends hist)\<rparr>)"
    by (rule fetchLoop_history [OF assms(1,2), where k = 0]) (simp_all add: all)
  then show ?thesis
    by (simp add: fetchAndProcessMessages_def g)
qed

lemma serves_history_sample: "serves_history (sample_env hist) hist"
  by (simp add: serves_history_def sample_env_def)

lemma getChannel_sample:
  "getChannel (sample_env hist) c world0 =
     (Inr \<lparr>chan_ID = c, chan_AccessHash = 77\<rparr>,
      world0\<lparr>channel_lookups := [[\<lparr>ic_ChannelID = c, ic_AccessHash = 0\<rparr>]]\<rparr>)"
  by (simp add: getChannel_def sample_env_def world0_def)

lemma descending_three_entries: "descending_history three_entries"
  by (simp add: descending_history_def three_entries_def hello_def)

lemma Itoa_samples: "Itoa 1 = ''1''" "Itoa 3 = ''3''" "Itoa 7 = ''7''" "Itoa 8 = ''8''"
  by (simp_all add: Itoa_def digits10.simps digit_char_def)


text \<open>The cursors of a served history and the pages they select.\<close>

lemma length_page_ends: "length (page_ends hist) = length hist div 100"
  by (simp add: page_ends_def)

lemma page_ends_nth:
  "k < length hist div 100 \<Longrightarrow> page_ends hist ! k = message_id (hist ! (100 * k + 99))"
  by (simp add: page_ends_def)

lemma page_end_in_history: "k < length hist div 100 \<Longrightarrow> 100 * k + 99 < length hist"
  by linarith


lemma cursor_selects:
  assumes "descending_history hist" and "i \<le> length hist div 100"
  shows "filter (older ((0 # page_ends hist) ! i)) hist = drop (100 * i) hist"
proof (cases i)
  case 0
  then show ?thesis by (simp add: older_def)
next
  case (Suc k)
  with assms(2) have k: "k < length hist div 100" by simp
  then have in_hist: "100 * k + 99 < length hist" by (rule page_end_in_history)
  have s: "sorted_wrt (\<lambda>a b. message_id b < message_id a) hist"
    using assms(1) by (simp add: descending_history_def)
  have "hist ! (100 * k + 99) \<in> set hist"
    using in_hist by simp
  then have pos: "0 < message_id (hist ! (100 * k + 99))"
    using assms(1) by (simp add: descending_history_def list_all_iff)
  have "filter (older (message_id (hist ! (100 * k + 99)))) hist = drop (Suc (100 * k + 99)) hist"
    using s in_hist pos by (rule filter_older_drop)
  then show ?thesis
    by (simp add: Suc page_ends_nth [OF k])
qed

lemma cursor_page:
  assumes "descending_history hist" and "i \<le> length hist div 100"
  shows "history_page hist \<lparr>Peer = p, OffsetID = (0 # page_ends hist) ! i, Limit = 100\<rparr> =
     take 100 (drop (100 * i) hist)"
  by (simp add: history_page_def cursor_selects [OF assms])

lemma full_page:
  assumes "k < length hist div 100"
  shows "length (take 100 (drop (100 * k) hist)) = 100"
    and "last (take 100 (drop (100 * k) hist)) = hist ! (100 * k + 99)"
proof -
  have in_hist: "100 * k + 99 < length hist"
    using assms by (rule page_end_in_history)
  then show full: "length (take 100 (drop (100 * k) hist)) = 100"
    by simp
  then have "take 100 (drop (100 * k) hist) \<noteq> []"
    by auto
  then have "last (take 100 (drop (100 * k) hist)) =
      take 100 (drop (100 * k) hist) ! (length (take 100 (drop (100 * k) hist)) - 1)"
    by (rule last_conv_nth)
  then show "last (take 100 (drop (100 * k) hist)) = hist ! (100 * k + 99)"
    using in_hist by (simp only: full) simp
qed

lemma last_page: "length (take 100 (drop (100 * (length hist div 100)) hist)) = length hist mod 100"
proof -
  have "length hist - 100 * (length hist div 100) = length hist mod 100"
    by (simp add: minus_mult_div_eq_mod)
  then show ?thesis by simp
qed


lemma length_hundred_messages: "length hundred_messages = 100"
  by (simp add: hundred_messages_def)

lemma descending_hundred_messages: "descending_history hundred_messages"
proof -
  have "sorted_wrt (\<lambda>a b. message_id b < message_id a) hundred_messages"
    by (simp add: hundred_messages_def hello_def sorted_wrt_map sorted_wrt_rev)
  moreover have "list_all (\<lambda>m. 0 < message_id m) hundred_messages"
    by (auto simp: hundred_messages_def hello_def list_all_iff)
  moreover have "hundred_messages ! 99 = Message (hello 1 42)"
    by (simp add: hundred_messages_def rev_nth)
  then have "list_all (\<lambda>k. is_plain (hundred_messages ! (100 * k + 99)))
      [0..<length hundred_messages div 100]"
    by (simp add: hundred_messages_def)
  ultimately show ?thesis by (simp add: descending_history_def)
qed

lemma page_ends_hundred_messages: "page_ends hundred_messages = [1]"
proof -
  have "hundred_messages ! 99 = Message (hello 1 42)"
    by (simp add: hundred_messages_def rev_nth)
  then show ?thesis
    by (simp add: page_ends_def hundred_messages_def hello_def)
qed


lemma nth_appended_requests:
  assumes "i \<le> length cs"
  shows "(hs @ map f (c # cs)) ! (length hs + i) = f ((c # cs) ! i)"
proof -
  have "i < length (c # cs)"
    using assms by simp
  then have "map f (c # cs) ! i = f ((c # cs) ! i)"
    by (rule nth_map)
  then show ?thesis
    by (simp only: nth_append_length_plus)
qed


text \<open>\<open>N div 100 + 1\<close> against the ceiling of \<open>N / 100\<close>.\<close>

lemma ceiling_div_100: "(n::nat) div 100 + 1 = (n + 99) div 100 \<longleftrightarrow> \<not> 100 dvd n"
proof -
  have "n + 99 = (n mod 100 + 99) + n div 100 * 100"
    by simp
  then have split: "(n + 99) div 100 = (n mod 100 + 99) div 100 + n div 100"
    by (simp only: div_mult_self1 [of 100 "n mod 100 + 99" "n div 100"])
  show ?thesis
  proof (cases "n mod 100 = 0")
    case True
    with split show ?thesis
      by (simp add: dvd_eq_mod_eq_0)
  next
    case False
    then have "100 * 1 \<le> n mod 100 + 99" and "n mod 100 + 99 < 100 * Suc 1"
      by simp_all
    then have "(n mod 100 + 99) div 100 = 1"
      by (rule div_nat_eqI)
    with split False show ?thesis
      by (simp add: dvd_eq_mod_eq_0)
  qed
qed


text \<open>The channel lookups of a live handler on a plain message of a channel peer.\<close>

lemma handleUpdate_channel_lookups:
  assumes "u = UpdateNewChannelMessage (Message msg) \<or> u = UpdateEditChannelMessage (Message msg)"
    and "msg_PeerID msg = PeerChannel c"
  shows "channel_lookups (snd (handleUpdate e cfg u w)) =
     channel_lookups w @ [[\<lparr>ic_ChannelID = c, ic_AccessHash = 0\<rparr>]]"
proof -
  obtain g w1 where g: "getChannel e c w = (g, w1)"
    by (cases "getChannel e c w")
  have w1: "channel_lookups w1 = channel_lookups w @ [[\<lparr>ic_ChannelID = c, ic_AccessHash = 0\<rparr>]]"
    using getChannel_world [of e c w] g by simp
  have sent: "channel_lookups (snd (sendMessage e s a t i w1)) = channel_lookups w1" for s a t i
    by (simp add: sendMessage_world)
  from assms(1) show ?thesis
  proof
    assume "u = UpdateNewChannelMessage (Message msg)"
    then show ?thesis
      using w1 sent [of "msg_Message msg" "WebhookUrl (TgApp cfg)" "''newMessage''" "msg_ID msg"]
      by (cases g)
        (auto simp: handleUpdate_def handleNew_plain [OF assms(2) g] log_Error_def log_Info_def
          split: prod.splits option.splits)
  next
    assume "u = UpdateEditChannelMessage (Message msg)"
    then show ?thesis
      using w1 sent [of "msg_Message msg" "WebhookUrl (TgApp cfg)" "''editMessage''" "msg_ID msg"]
      by (cases g)
        (auto simp: handleUpdate_def handleEdit_plain [OF assms(2) g] log_Error_def log_Info_def
          split: prod.splits option.splits)
  qed
qed

lemma length_history_with_service_end: "length history_with_service_end = 100"
  by (simp add: history_with_service_end_def)

lemma last_history_with_service_end: "last history_with_service_end = MessageService 1"
  by (simp add: history_with_service_end_def)


section \<open>The webhook dispatcher\<close>





section \<open>The channel resolver\<close>

text \<open>
  Claim C9. The resolver returns an error exactly when the API call fails, when the
  list of chats that comes back is empty, or when its first entry is not a channel; in
  every other case it returns that first entry. Its only effect is the one API call.
\<close>

theorem getChannel_error_iff:
  "(isl (fst (getChannel e c w)) \<longleftrightarrow>
      (isl (ChannelsGetChannels e (length (channel_lookups w)) [\<lparr>ic_ChannelID = c, ic_AccessHash = 0\<rparr>]) \<or>
       ChannelsGetChannels e (length (channel_lookups w)) [\<lparr>ic_ChannelID = c, ic_AccessHash = 0\<rparr>] = Inr [] \<or>
       (\<exists>x xs. ChannelsGetChannels e (length (channel_lookups w)) [\<lparr>ic_ChannelID = c, ic_AccessHash = 0\<rparr>]
                  = Inr (x # xs) \<and> (\<forall>ch. x \<noteq> Channel ch)))) \<and>
   (\<forall>ch xs. ChannelsGetChannels e (length (channel_lookups w)) [\<lparr>ic_ChannelID = c, ic_AccessHash = 0\<rparr>]
        = Inr (Channel ch # xs) \<longrightarrow>
      fst (getChannel e c w) = Inr ch) \<and>
   snd (getChannel e c w) =
     w\<lparr>channel_lookups := channel_lookups w @ [[\<lparr>ic_ChannelID = c, ic_AccessHash = 0\<rparr>]]\<rparr>"
  by (auto simp: getChannel_def Let_def split: sum.splits list.splits ChatClass.splits)

theorem getChannel_error_iff_witness:
  "fst (getChannel (sample_env []) 42 world0) = Inr \<lparr>chan_ID = 42, chan_AccessHash = 77\<rparr> \<and>
   isl (fst (getChannel down_env 42 world0)) \<and>
   snd (getChannel down_env 42 world0) =
     world0\<lparr>channel_lookups := [[\<lparr>ic_ChannelID = 42, ic_AccessHash = 0\<rparr>]]\<rparr>"
  using getChannel_error_iff [of "sample_env []" 42 world0] getChannel_error_iff [of down_env 42 world0]
  by (simp add: sample_env_def down_env_def world0_def)


section \<open>The live handlers\<close>

text \<open>
  Claim C1, as the program has it. The claim says that every live event from another
  chat is skipped. The handlers look the event's channel up on every event, and when
  that lookup fails they return its error instead.
  What holds, for a plain message of a channel peer: no POST is made unless the lookup
  succeeds with the watched channel; when it succeeds with a channel whose identifier
  is not the watched one, the handler returns nil and leaves nothing but the lookup
  behind; when it fails, the handler logs and returns the error.
\<close>

theorem other_chat_skipped:
  assumes "u = UpdateNewChannelMessage (Message msg) \<or> u = UpdateEditChannelMessage (Message msg)"
    and "msg_PeerID msg = PeerChannel c"
    and "getChannel e c w = (g, w1)"
  shows "case g of
           Inr channel \<Rightarrow>
             chan_ID channel \<noteq> ChatForWatch (TgApp cfg) \<longrightarrow>
               handleUpdate e cfg u w = (Returned None, w1) \<and>
               posts w1 = posts w \<and> logged w1 = logged w
         | Inl err \<Rightarrow>
             handleUpdate e cfg u w = (Returned (Some err), log_Error ''get channel'' err w1) \<and>
             posts (log_Error ''get channel'' err w1) = posts w"
proof -
  have w1: "posts w1 = posts w \<and> logged w1 = logged w"
    using getChannel_world [of e c w] assms(3) by simp
  from assms(1) show ?thesis
  proof
    assume "u = UpdateNewChannelMessage (Message msg)"
    then show ?thesis
      using w1 by (cases g) (simp_all add: handleUpdate_def handleNew_plain [OF assms(2,3)] log_Error_def)
  next
    assume "u = UpdateEditChannelMessage (Message msg)"
    then show ?thesis
      using w1 by (cases g) (simp_all add: handleUpdate_def handleEdit_plain [OF assms(2,3)] log_Error_def)
  qed
qed

theorem other_chat_skipped_witness:
  "handleUpdate (sample_env []) cfg42 (UpdateEditChannelMessage (Message (hello 7 5))) world0 =
     (Returned None, world0\<lparr>channel_lookups := [[\<lparr>ic_ChannelID = 5, ic_AccessHash = 0\<rparr>]]\<rparr>) \<and>
   handleUpdate down_env cfg42 (UpdateNewChannelMessage (Message (hello 7 5))) world0 =
     (Returned (Some (FailedToFetchChannel ''timeout'')),
      log_Error ''get channel'' (FailedToFetchChannel ''timeout'')
        (world0\<lparr>channel_lookups := [[\<lparr>ic_ChannelID = 5, ic_AccessHash = 0\<rparr>]]\<rparr>))"
proof -
  have a: "getChannel (sample_env []) 5 world0 =
      (Inr \<lparr>chan_ID = 5, chan_AccessHash = 77\<rparr>,
       world0\<lparr>channel_lookups := [[\<lparr>ic_ChannelID = 5, ic_AccessHash = 0\<rparr>]]\<rparr>)"
    by (simp add: getChannel_def sample_env_def world0_def)
  have b: "getChannel down_env 5 world0 =
      (Inl (FailedToFetchChannel ''timeout''),
       world0\<lparr>channel_lookups := [[\<lparr>ic_ChannelID = 5, ic_AccessHash = 0\<rparr>]]\<rparr>)"
    by (simp add: getChannel_def down_env_def world0_def)
  have p: "msg_PeerID (hello 7 5) = PeerChannel 5"
    by (simp add: hello_def)
  show ?thesis
    using other_chat_skipped [OF disjI2 [OF refl] p a, of cfg42]
      other_chat_skipped [OF disjI1 [OF refl] p b, of cfg42]
    by (simp add: cfg42_def)
qed

text \<open>Claim C1 as it is stated fails at a message of chat 5, when chat 42 is watched and the
  channel lookup times out: the handler returns the error of the lookup, not nil.\<close>

theorem other_chat_lookup_error_counterexample:
  "msg_PeerID (hello 7 5) = PeerChannel 5 \<and> ChatForWatch (TgApp cfg42) \<noteq> 5 \<and>
   handleUpdate down_env cfg42 (UpdateNewChannelMessage (Message (hello 7 5))) world0 =
     (Returned (Some (FailedToFetchChannel ''timeout'')),
      world0\<lparr>channel_lookups := [[\<lparr>ic_ChannelID = 5, ic_AccessHash = 0\<rparr>]],
             logged := [LogError ''get channel'' (FailedToFetchChannel ''timeout'')]\<rparr>)"
  by (simp add: handleUpdate_def handleNewChannelMessage_def getChannel_def down_env_def cfg42_def
      hello_def world0_def log_Error_def Let_def)

text \<open>
  Claim C2, as the program has it. The claim says that every plain message of the
  watched chat is relayed. A live event is relayed only when the lookup of its channel
  succeeds; when it fails, the handler returns the error of the lookup.
  What holds: when the lookup succeeds with the watched channel, the handler makes one
  POST with the message's identifier and text, of type \<^verbatim>\<open>newMessage\<close> for a new
  message and \<^verbatim>\<open>editMessage\<close> for an edited one, and returns nil; the backfill's page
  loop makes one POST of type \<^verbatim>\<open>oldMessage\<close> for every plain message of the page, in
  the page's order, and none for the other entries.
\<close>

theorem watched_chat_relayed:
  "((u = UpdateNewChannelMessage (Message msg) \<and> t = ''newMessage'' \<or>
     u = UpdateEditChannelMessage (Message msg) \<and> t = ''editMessage'') \<and>
    msg_PeerID msg = PeerChannel c \<and>
    getChannel e c w = (Inr channel, w1) \<and>
    chan_ID channel = ChatForWatch (TgApp cfg) \<longrightarrow>
      fst (handleUpdate e cfg u w) = Returned None \<and>
      new_posts w (snd (handleUpdate e cfg u w)) =
        [\<lparr>url = WebhookUrl (TgApp cfg), contentType = ''application/json'',
          body = [(''external_id'', Itoa (msg_ID msg)), (''text'', msg_Message msg), (''type'', t)]\<rparr>]) \<and>
   new_posts w (processMessages e cfg page w) =
     map (\<lambda>m. \<lparr>url = WebhookUrl (TgApp cfg), contentType = ''application/json'',
                 body = [(''external_id'', Itoa (msg_ID m)), (''text'', msg_Message m),
                         (''type'', ''oldMessage'')]\<rparr>)
       (plain_messages page)"
proof -
  have live: "fst (handleUpdate e cfg u w) = Returned None \<and>
      new_posts w (snd (handleUpdate e cfg u w)) =
        [\<lparr>url = WebhookUrl (TgApp cfg), contentType = ''application/json'',
          body = [(''external_id'', Itoa (msg_ID msg)), (''text'', msg_Message msg), (''type'', t)]\<rparr>]"
    if kind: "u = UpdateNewChannelMessage (Message msg) \<and> t = ''newMessage'' \<or>
        u = UpdateEditChannelMessage (Message msg) \<and> t = ''editMessage''"
      and peer: "msg_PeerID msg = PeerChannel c"
      and g: "getChannel e c w = (Inr channel, w1)"
      and watched: "chan_ID channel = ChatForWatch (TgApp cfg)"
  proof -
    have w1: "posts w1 = posts w"
      using getChannel_world [of e c w] g by simp
    obtain er w2 where s: "sendMessage e (msg_Message msg) (WebhookUrl (TgApp cfg)) t (msg_ID msg) w1 = (er, w2)"
      by (cases "sendMessage e (msg_Message msg) (WebhookUrl (TgApp cfg)) t (msg_ID msg) w1")
    have w2: "posts w2 = posts w @ [\<lparr>url = WebhookUrl (TgApp cfg), contentType = ''application/json'',
          body = [(''external_id'', Itoa (msg_ID msg)), (''text'', msg_Message msg), (''type'', t)]\<rparr>]"
      using sendMessage_world [of e "msg_Message msg" "WebhookUrl (TgApp cfg)" t "msg_ID msg" w1]
      by (simp add: s w1)
    from kind show ?thesis
    proof (elim disjE conjE)
      assume "u = UpdateNewChannelMessage (Message msg)" and "t = ''newMessage''"
      then show ?thesis
        using s w2 watched
        by (cases er) (simp_all add: handleUpdate_def handleNew_plain [OF peer g] log_Error_def log_Info_def)
    next
      assume "u = UpdateEditChannelMessage (Message msg)" and "t = ''editMessage''"
      then show ?thesis
        using s w2 watched
        by (cases er) (simp_all add: handleUpdate_def handleEdit_plain [OF peer g] log_Error_def log_Info_def)
    qed
  qed
  have old: "new_posts w (processMessages e cfg page w) =
     map (\<lambda>m. \<lparr>url = WebhookUrl (TgApp cfg), contentType = ''application/json'',
                 body = [(''external_id'', Itoa (msg_ID m)), (''text'', msg_Message m),
                         (''type'', ''oldMessage'')]\<rparr>)
       (plain_messages page)"
    by (simp add: processMessages_posts)
  from live old show ?thesis by blast
qed

theorem watched_chat_relayed_witness:
  "fst (handleUpdate (sample_env []) cfg42 (UpdateEditChannelMessage (Message (hello 7 42))) world0) =
     Returned None \<and>
   new_posts world0
     (snd (handleUpdate (sample_env []) cfg42 (UpdateEditChannelMessage (Message (hello 7 42))) world0)) =
     [\<lparr>url = ''http://hook.example/relay'', contentType = ''application/json'',
       body = [(''external_id'', ''7''), (''text'', ''Hello''), (''type'', ''editMessage'')]\<rparr>] \<and>
   new_posts world0
     (processMessages (sample_env []) cfg42 [Message (hello 3 42), MessageService 2] world0) =
     [\<lparr>url = ''http://hook.example/relay'', contentType = ''application/json'',
       body = [(''external_id'', ''3''), (''text'', ''Hello''), (''type'', ''oldMessage'')]\<rparr>]"
proof -
  have a: "getChannel (sample_env []) 42 world0 =
      (Inr \<lparr>chan_ID = 42, chan_AccessHash = 77\<rparr>,
       world0\<lparr>channel_lookups := [[\<lparr>ic_ChannelID = 42, ic_AccessHash = 0\<rparr>]]\<rparr>)"
    by (simp add: getChannel_def sample_env_def world0_def)
  have i: "Itoa 7 = ''7''" "Itoa 3 = ''3''"
    by (simp_all add: Itoa_def digits10.simps digit_char_def)
  show ?thesis
    using a watched_chat_relayed [of "UpdateEditChannelMessage (Message (hello 7 42))" "hello 7 42"
        "''editMessage''" 42 "sample_env []" world0 "\<lparr>chan_ID = 42, chan_AccessHash = 77\<rparr>"
        "world0\<lparr>channel_lookups := [[\<lparr>ic_ChannelID = 42, ic_AccessHash = 0\<rparr>]]\<rparr>" cfg42
        "[Message (hello 3 42), MessageService 2]"]
    by (simp add: cfg42_def hello_def i)
qed


text \<open>Claim C2 as it is stated fails at a new message of the watched chat 42 when the
  channel lookup times out: the handler returns the error and makes no POST.\<close>

theorem watched_chat_lookup_error_counterexample:
  "msg_PeerID (hello 7 42) = PeerChannel 42 \<and> ChatForWatch (TgApp cfg42) = 42 \<and>
   fst (handleUpdate down_env cfg42 (UpdateNewChannelMessage (Message (hello 7 42))) world0) =
     Returned (Some (FailedToFetchChannel ''timeout'')) \<and>
   posts (snd (handleUpdate down_env cfg42 (UpdateNewChannelMessage (Message (hello 7 42))) world0)) = []"
  by (simp add: handleUpdate_def handleNewChannelMessage_def getChannel_def down_env_def cfg42_def
      hello_def world0_def log_Error_def Let_def)

section \<open>Delivery errors\<close>

text \<open>
  Claim C3. An error of the dispatcher is logged and goes no further. In a live handler:
  when the delivery of a relayed event fails, the handler logs the error and returns nil,
  so nothing stops the stream. In the backfill: when the delivery of an entry fails, the
  page loop logs the error and goes on with the rest of the page; and on a served
  history, whatever the webhook answers, the run returns nil after a POST for every
  plain message of the history.
\<close>

theorem delivery_error_contained:
  "((u = UpdateNewChannelMessage (Message msg) \<and> t = ''newMessage'' \<or>
     u = UpdateEditChannelMessage (Message msg) \<and> t = ''editMessage'') \<and>
    msg_PeerID msg = PeerChannel c \<and>
    getChannel e c w = (Inr channel, w1) \<and>
    chan_ID channel = ChatForWatch (TgApp cfg) \<and>
    sendMessage e (msg_Message msg) (WebhookUrl (TgApp cfg)) t (msg_ID msg) w1 = (Some err, w2) \<longrightarrow>
      handleUpdate e cfg u w =
        (Returned None,
         log_Info ''Message'' (msg_Message msg) (log_Error ''Error sending message'' err w2))) \<and>
   (sendMessage e (msg_Message msg) (WebhookUrl (TgApp cfg)) ''oldMessage'' (msg_ID msg) w = (Some err, w2) \<longrightarrow>
      processMessages e cfg (Message msg # rest) w =
        processMessages e cfg rest
          (log_Info ''Message'' (msg_Message msg) (log_Error ''Error sending message'' err w2))) \<and>
   (serves_history e hist \<and> descending_history hist \<and>
    fst (getChannel e (ChatForWatch (TgApp cfg)) w) = Inr channel \<longrightarrow>
      (\<exists>w'. fetchAndProcessMessages e cfg w = Some (Returned None, w') \<and>
         new_posts w w' =
           map (\<lambda>m. \<lparr>url = WebhookUrl (TgApp cfg), contentType = ''application/json'',
                       body = [(''external_id'', Itoa (msg_ID m)), (''text'', msg_Message m),
                               (''type'', ''oldMessage'')]\<rparr>)
             (plain_messages hist)))"
proof (intro conjI impI)
  assume a: "(u = UpdateNewChannelMessage (Message msg) \<and> t = ''newMessage'' \<or>
     u = UpdateEditChannelMessage (Message msg) \<and> t = ''editMessage'') \<and>
    msg_PeerID msg = PeerChannel c \<and>
    getChannel e c w = (Inr channel, w1) \<and>
    chan_ID channel = ChatForWatch (TgApp cfg) \<and>
    sendMessage e (msg_Message msg) (WebhookUrl (TgApp cfg)) t (msg_ID msg) w1 = (Some err, w2)"
  then have peer: "msg_PeerID msg = PeerChannel c" and g: "getChannel e c w = (Inr channel, w1)"
    by simp_all
  from a show "handleUpdate e cfg u w =
        (Returned None,
         log_Info ''Message'' (msg_Message msg) (log_Error ''Error sending message'' err w2))"
    by (auto simp: handleUpdate_def handleNew_plain [OF peer g] handleEdit_plain [OF peer g])
next
  assume "sendMessage e (msg_Message msg) (WebhookUrl (TgApp cfg)) ''oldMessage'' (msg_ID msg) w = (Some err, w2)"
  then show "processMessages e cfg (Message msg # rest) w =
        processMessages e cfg rest
          (log_Info ''Message'' (msg_Message msg) (log_Error ''Error sending message'' err w2))"
    by simp
next
  assume a: "serves_history e hist \<and> descending_history hist \<and>
    fst (getChannel e (ChatForWatch (TgApp cfg)) w) = Inr channel"
  then have run: "fetchAndProcessMessages e cfg w =
     Some (Returned None,
           (processMessages e cfg hist
              (w\<lparr>channel_lookups := channel_lookups w @
                    [[\<lparr>ic_ChannelID = ChatForWatch (TgApp cfg), ic_AccessHash = 0\<rparr>]]\<rparr>))
             \<lparr>history_requests := history_requests w @
                map (\<lambda>c. \<lparr>Peer = \<lparr>ip_ChannelID = chan_ID channel, ip_AccessHash = chan_AccessHash channel\<rparr>,
                           OffsetID = c, Limit = 100\<rparr>)
                  (0 # page_ends hist)\<rparr>)"
    by (intro fetchAndProcessMessages_history) simp_all
  show "\<exists>w'. fetchAndProcessMessages e cfg w = Some (Returned None, w') \<and>
         new_posts w w' =
           map (\<lambda>m. \<lparr>url = WebhookUrl (TgApp cfg), contentType = ''application/json'',
                       body = [(''external_id'', Itoa (msg_ID m)), (''text'', msg_Message m),
                               (''type'', ''oldMessage'')]\<rparr>)
             (plain_messages hist)"
    unfolding run by (simp add: processMessages_posts)
qed

theorem delivery_error_contained_witness:
  "handleUpdate (sample_env []) cfg42 (UpdateNewChannelMessage (Message (hello 7 42))) world0 =
     (Returned None,
      \<lparr>posts = [\<lparr>url = ''http://hook.example/relay'', contentType = ''application/json'',
                 body = [(''external_id'', ''7''), (''text'', ''Hello''), (''type'', ''newMessage'')]\<rparr>],
       channel_lookups = [[\<lparr>ic_ChannelID = 42, ic_AccessHash = 0\<rparr>]],
       history_requests = [],
       logged = [LogError ''Error sending message'' (UnexpectedStatusCode 500),
                 LogInfo ''Message'' ''Hello'']\<rparr>) \<and>
   logged (processMessages (sample_env []) cfg42 [Message (hello 3 42), Message (hello 1 42)] world0) =
     [LogError ''Error sending message'' (UnexpectedStatusCode 500), LogInfo ''Message'' ''Hello'',
      LogInfo ''Message'' ''Hello''] \<and>
   (\<exists>w'. fetchAndProcessMessages (sample_env three_entries) cfg42 world0 = Some (Returned None, w') \<and>
      map (\<lambda>r. map_of (body r) ''external_id'') (new_posts world0 w') = [Some ''3'', Some ''1''])"
proof -
  let ?ch = "\<lparr>chan_ID = 42, chan_AccessHash = 77\<rparr>"
  let ?w1 = "world0\<lparr>channel_lookups := [[\<lparr>ic_ChannelID = 42, ic_AccessHash = 0\<rparr>]]\<rparr>"
  let ?req7 = "\<lparr>url = ''http://hook.example/relay'', contentType = ''application/json'',
      body = [(''external_id'', ''7''), (''text'', ''Hello''), (''type'', ''newMessage'')]\<rparr>"
  let ?req3 = "\<lparr>url = ''http://hook.example/relay'', contentType = ''application/json'',
      body = [(''external_id'', ''3''), (''text'', ''Hello''), (''type'', ''oldMessage'')]\<rparr>"
  let ?err = "UnexpectedStatusCode 500"
  note contained = delivery_error_contained
    [of "UpdateNewChannelMessage (Message (hello 7 42))" "hello 7 42" "''newMessage''" 42
        "sample_env []" world0 ?ch ?w1 cfg42 ?err "?w1\<lparr>posts := [?req7]\<rparr>"]
  note contained_page = delivery_error_contained
    [of "UpdateNewChannelMessage (Message (hello 3 42))" "hello 3 42" "''newMessage''" 42
        "sample_env []" world0 ?ch ?w1 cfg42 ?err "world0\<lparr>posts := [?req3]\<rparr>" "[Message (hello 1 42)]"]
  note contained_run = delivery_error_contained
    [of "UpdateNewChannelMessage (Message (hello 7 42))" "hello 7 42" "''newMessage''" 42
        "sample_env three_entries" world0 ?ch ?w1 cfg42 ?err "?w1\<lparr>posts := [?req7]\<rparr>" "[]" three_entries]
  have "sendMessage (sample_env []) ''Hello'' ''http://hook.example/relay'' ''newMessage'' 7 ?w1 =
      (Some ?err, ?w1\<lparr>posts := [?req7]\<rparr>)"
    by (simp add: sendMessage_def sample_env_def world0_def Itoa_samples)
  then have "handleUpdate (sample_env []) cfg42 (UpdateNewChannelMessage (Message (hello 7 42))) world0 =
      (Returned None,
       log_Info ''Message'' (msg_Message (hello 7 42))
         (log_Error ''Error sending message'' ?err (?w1\<lparr>posts := [?req7]\<rparr>)))"
    by (intro contained [THEN conjunct1, THEN mp]) (simp add: getChannel_sample hello_def cfg42_def)
  then have live: "handleUpdate (sample_env []) cfg42 (UpdateNewChannelMessage (Message (hello 7 42))) world0 =
     (Returned None,
      \<lparr>posts = [?req7], channel_lookups = [[\<lparr>ic_ChannelID = 42, ic_AccessHash = 0\<rparr>]],
       history_requests = [],
       logged = [LogError ''Error sending message'' ?err, LogInfo ''Message'' ''Hello'']\<rparr>)"
    by (simp add: log_Info_def log_Error_def world0_def hello_def)
  have "sendMessage (sample_env []) ''Hello'' ''http://hook.example/relay'' ''oldMessage'' 3 world0 =
      (Some ?err, world0\<lparr>posts := [?req3]\<rparr>)"
    by (simp add: sendMessage_def sample_env_def world0_def Itoa_samples)
  then have "processMessages (sample_env []) cfg42 (Message (hello 3 42) # [Message (hello 1 42)]) world0 =
      processMessages (sample_env []) cfg42 [Message (hello 1 42)]
        (log_Info ''Message'' (msg_Message (hello 3 42))
           (log_Error ''Error sending message'' ?err (world0\<lparr>posts := [?req3]\<rparr>)))"
    by (intro contained_page [THEN conjunct2, THEN conjunct1, THEN mp]) (simp add: hello_def cfg42_def)
  then have page: "logged (processMessages (sample_env []) cfg42
        [Message (hello 3 42), Message (hello 1 42)] world0) =
      [LogError ''Error sending message'' ?err, LogInfo ''Message'' ''Hello'', LogInfo ''Message'' ''Hello'']"
    by (simp add: sendMessage_def sample_env_def world0_def cfg42_def hello_def log_Info_def
        log_Error_def Let_def)
  have "\<exists>w'. fetchAndProcessMessages (sample_env three_entries) cfg42 world0 = Some (Returned None, w') \<and>
      new_posts world0 w' =
        map (\<lambda>m. \<lparr>url = WebhookUrl (TgApp cfg42), contentType = ''application/json'',
                    body = [(''external_id'', Itoa (msg_ID m)), (''text'', msg_Message m),
                            (''type'', ''oldMessage'')]\<rparr>)
          (plain_messages three_entries)"
    by (intro contained_run [THEN conjunct2, THEN conjunct2, THEN mp])
      (simp add: serves_history_sample descending_three_entries getChannel_sample cfg42_def)
  then have run: "\<exists>w'. fetchAndProcessMessages (sample_env three_entries) cfg42 world0 = Some (Returned None, w') \<and>
      map (\<lambda>r. map_of (body r) ''external_id'') (new_posts world0 w') = [Some ''3'', Some ''1'']"
    by (auto simp: three_entries_def hello_def Itoa_samples)
  from live page run show ?thesis by (intro conjI)
qed


section \<open>The backfill paginator\<close>

text \<open>
  Claim C4, as the program has it. The claim counts \<open>ceil(N/100)\<close> page requests for a
  history of \<open>N\<close> entries. The loop stops at the first page of fewer than 100 entries,
  so when 100 divides \<open>N\<close> it makes one request more, for an empty page. What holds,
  on a served history: the run returns, after exactly \<open>N div 100 + 1\<close> requests; each but the last
  is answered with a full page and the last with a page of \<open>N mod 100\<close> entries; the
  count is \<open>ceil(N/100)\<close> exactly when 100 does not divide \<open>N\<close>.
\<close>

theorem backfill_request_count:
  "(serves_history e hist \<and> descending_history hist \<and>
    fst (getChannel e (ChatForWatch (TgApp cfg)) w) = Inr channel \<longrightarrow>
      (\<exists>w'. fetchAndProcessMessages e cfg w = Some (Returned None, w') \<and>
         length (history_requests w') = length (history_requests w) + (length hist div 100 + 1) \<and>
         (\<forall>i < length hist div 100.
            length (history_page hist (history_requests w' ! (length (history_requests w) + i))) = 100) \<and>
         length (history_page hist (last (history_requests w'))) = length hist mod 100)) \<and>
   (length hist div 100 + 1 = (length hist + 99) div 100 \<longleftrightarrow> \<not> 100 dvd length hist)"
proof (intro conjI impI)
  assume a: "serves_history e hist \<and> descending_history hist \<and>
    fst (getChannel e (ChatForWatch (TgApp cfg)) w) = Inr channel"
  then have d: "descending_history hist" by simp
  let ?peer = "\<lparr>ip_ChannelID = chan_ID channel, ip_AccessHash = chan_AccessHash channel\<rparr>"
  let ?req = "\<lambda>c. \<lparr>Peer = ?peer, OffsetID = c, Limit = 100\<rparr>"
  let ?w' = "(processMessages e cfg hist
              (w\<lparr>channel_lookups := channel_lookups w @
                    [[\<lparr>ic_ChannelID = ChatForWatch (TgApp cfg), ic_AccessHash = 0\<rparr>]]\<rparr>))
             \<lparr>history_requests := history_requests w @ map ?req (0 # page_ends hist)\<rparr>"
  have run: "fetchAndProcessMessages e cfg w = Some (Returned None, ?w')"
    using a by (intro fetchAndProcessMessages_history) simp_all
  have requests: "history_requests ?w' = history_requests w @ map ?req (0 # page_ends hist)"
    by simp
  have count: "length (history_requests ?w') = length (history_requests w) + (length hist div 100 + 1)"
    by (simp add: length_page_ends)
  have nth: "history_requests ?w' ! (length (history_requests w) + i) = ?req ((0 # page_ends hist) ! i)"
    if "i \<le> length hist div 100" for i
    using nth_appended_requests [of i "page_ends hist" "history_requests w" ?req 0] that
    by (simp only: requests length_page_ends)
  have full: "\<forall>i < length hist div 100.
      length (history_page hist (history_requests ?w' ! (length (history_requests w) + i))) = 100"
  proof (intro allI impI)
    fix i
    assume i: "i < length hist div 100"
    show "length (history_page hist (history_requests ?w' ! (length (history_requests w) + i))) = 100"
      by (simp only: nth [OF less_imp_le [OF i]] cursor_page [OF d less_imp_le [OF i]] full_page(1) [OF i])
  qed
  have "history_requests ?w' \<noteq> []"
    by simp
  then have "last (history_requests ?w') = history_requests ?w' ! (length (history_requests ?w') - 1)"
    by (rule last_conv_nth)
  also have "length (history_requests ?w') - 1 = length (history_requests w) + length hist div 100"
    by (simp only: count)
  finally have "last (history_requests ?w') = ?req ((0 # page_ends hist) ! (length hist div 100))"
    by (simp only: nth [OF order_refl])
  then have short: "length (history_page hist (last (history_requests ?w'))) = length hist mod 100"
    by (simp only: cursor_page [OF d order_refl] last_page)
  show "\<exists>w'. fetchAndProcessMessages e cfg w = Some (Returned None, w') \<and>
         length (history_requests w') = length (history_requests w) + (length hist div 100 + 1) \<and>
         (\<forall>i < length hist div 100.
            length (history_page hist (history_requests w' ! (length (history_requests w) + i))) = 100) \<and>
         length (history_page hist (last (history_requests w'))) = length hist mod 100"
    using run count full short by (intro exI [of _ ?w'] conjI)
next
  show "length hist div 100 + 1 = (length hist + 99) div 100 \<longleftrightarrow> \<not> 100 dvd length hist"
    by (rule ceiling_div_100)
qed

theorem backfill_request_count_witness:
  "\<exists>w'. fetchAndProcessMessages (sample_env hundred_messages) cfg42 world0 = Some (Returned None, w') \<and>
     length (history_requests w') = 2 \<and>
     length (history_page hundred_messages (history_requests w' ! 0)) = 100 \<and>
     length (history_page hundred_messages (last (history_requests w'))) = 0"
proof -
  have "serves_history (sample_env hundred_messages) hundred_messages \<and>
      descending_history hundred_messages \<and>
      fst (getChannel (sample_env hundred_messages) (ChatForWatch (TgApp cfg42)) world0) =
        Inr \<lparr>chan_ID = 42, chan_AccessHash = 77\<rparr>"
    by (simp add: serves_history_sample descending_hundred_messages getChannel_sample cfg42_def)
  note hyps = this
  from backfill_request_count [of "sample_env hundred_messages" hundred_messages cfg42 world0
      "\<lparr>chan_ID = 42, chan_AccessHash = 77\<rparr>", THEN conjunct1, THEN mp, OF hyps]
  obtain w' where w': "fetchAndProcessMessages (sample_env hundred_messages) cfg42 world0 =
        Some (Returned None, w')"
      "length (history_requests w') =
        length (history_requests world0) + (length hundred_messages div 100 + 1)"
      "\<forall>i < length hundred_messages div 100.
        length (history_page hundred_messages
          (history_requests w' ! (length (history_requests world0) + i))) = 100"
      "length (history_page hundred_messages (last (history_requests w'))) =
        length hundred_messages mod 100"
    by (elim exE conjE) (rule that, assumption+)
  note n = length_hundred_messages
  from w'(3) have "length (history_page hundred_messages (history_requests w' ! 0)) = 100"
    by (simp add: n world0_def)
  with w'(1,2,4) show ?thesis
    by (auto simp: n world0_def)
qed

text \<open>Claim C4 as it is stated fails at a history of 100 messages: \<open>ceil(100/100)\<close> is 1,
  and the run makes two requests, with the cursors 0 and 1.\<close>

theorem full_pages_one_more_request_counterexample:
  "length hundred_messages = 100 \<and> (length hundred_messages + 99) div 100 = 1 \<and>
   map_option (\<lambda>(r, w'). (r, map OffsetID (history_requests w')))
     (fetchAndProcessMessages (sample_env hundred_messages) cfg42 world0) = Some (Returned None, [0, 1])"
proof -
  have g: "fst (getChannel (sample_env hundred_messages) (ChatForWatch (TgApp cfg42)) world0) =
      Inr \<lparr>chan_ID = 42, chan_AccessHash = 77\<rparr>"
    by (simp add: getChannel_sample cfg42_def)
  note run = fetchAndProcessMessages_history [OF serves_history_sample descending_hundred_messages g]
  have "map_option (\<lambda>(r, w'). (r, map OffsetID (history_requests w')))
     (fetchAndProcessMessages (sample_env hundred_messages) cfg42 world0) = Some (Returned None, [0, 1])"
    unfolding run by (simp add: page_ends_hundred_messages world0_def)
  then show ?thesis by (simp add: length_hundred_messages)
qed




section \<open>Payloads that are not plain messages\<close>

text \<open>
  Claim C6 says that an event whose payload is not a plain message is skipped, without
  an error and without a crash. The page loop of the backfill does skip such an entry.
  The live handlers do not: they drop the result of the checked type assertion and panic
  on the next line. The backfill panics too when such an entry is the last of a full
  page, where it reads the next cursor: the last conjunct is a history of 99 plain
  messages and one service message.
\<close>

theorem non_plain_payload_panics:
  "handleUpdate e cfg (UpdateNewChannelMessage (MessageService i)) w = (Panicked, w) \<and>
   handleUpdate e cfg (UpdateEditChannelMessage (MessageService i)) w = (Panicked, w) \<and>
   handleUpdate e cfg (UpdateNewChannelMessage (MessageEmpty i)) w = (Panicked, w) \<and>
   handleUpdate e cfg (UpdateEditChannelMessage (MessageEmpty i)) w = (Panicked, w) \<and>
   processMessages e cfg (MessageService i # rest) w = processMessages e cfg rest w \<and>
   processMessages e cfg (MessageEmpty i # rest) w = processMessages e cfg rest w \<and>
   map_option fst (fetchAndProcessMessages (sample_env history_with_service_end) cfg42 world0) =
     Some Panicked"
proof -
  let ?peer = "\<lparr>ip_ChannelID = 42, ip_AccessHash = 77\<rparr>"
  let ?w1 = "world0\<lparr>channel_lookups := [[\<lparr>ic_ChannelID = 42, ic_AccessHash = 0\<rparr>]]\<rparr>"
  have page: "MessagesGetHistory (sample_env history_with_service_end) n
      \<lparr>Peer = ?peer, OffsetID = 0, Limit = 100\<rparr> =
      Inr (MessagesChannelMessages history_with_service_end)" for n
    using serves_history_sample [of history_with_service_end]
    by (simp add: serves_history_def history_page_def older_def length_history_with_service_end)
  have "\<exists>w'. fetchLoop (sample_env history_with_service_end) cfg42 ?peer 0 ?w1 = Some (Panicked, w')"
    by (subst fetchLoop.simps)
      (simp add: page length_history_with_service_end last_history_with_service_end Let_def)
  then have "map_option fst (fetchAndProcessMessages (sample_env history_with_service_end) cfg42 world0) =
      Some Panicked"
    by (auto simp: fetchAndProcessMessages_def getChannel_sample cfg42_def)
  then show ?thesis
    by (simp add: handleUpdate_def handleNewChannelMessage_def handleEditChannelMessage_def)
qed

section \<open>Channel lookups\<close>

text \<open>
  Claim C10, as the program has it. The claim says that the watched chat is resolved at
  most once and the result reused. The program keeps no resolved chat: each live
  handler looks the event's channel up again, so two events of the watched chat make
  two lookups of it. What holds: a live handler makes exactly one
  lookup per event with a plain message of a channel peer, for that event's channel,
  and compares the identifier it gets with the configured one; a backfill run that
  returns has made exactly one lookup, for the configured chat.
\<close>

theorem lookup_on_every_event:
  "((u = UpdateNewChannelMessage (Message msg) \<or> u = UpdateEditChannelMessage (Message msg)) \<and>
    msg_PeerID msg = PeerChannel c \<longrightarrow>
      channel_lookups (snd (handleUpdate e cfg u w)) =
        channel_lookups w @ [[\<lparr>ic_ChannelID = c, ic_AccessHash = 0\<rparr>]]) \<and>
   (fetchAndProcessMessages e cfg w = Some y \<longrightarrow>
      channel_lookups (snd y) =
        channel_lookups w @ [[\<lparr>ic_ChannelID = ChatForWatch (TgApp cfg), ic_AccessHash = 0\<rparr>]])"
proof (intro conjI impI)
  assume "(u = UpdateNewChannelMessage (Message msg) \<or> u = UpdateEditChannelMessage (Message msg)) \<and>
    msg_PeerID msg = PeerChannel c"
  then have kind: "u = UpdateNewChannelMessage (Message msg) \<or> u = UpdateEditChannelMessage (Message msg)"
    and peer: "msg_PeerID msg = PeerChannel c"
    by simp_all
  from kind peer show "channel_lookups (snd (handleUpdate e cfg u w)) =
        channel_lookups w @ [[\<lparr>ic_ChannelID = c, ic_AccessHash = 0\<rparr>]]"
    by (rule handleUpdate_channel_lookups)
next
  assume run: "fetchAndProcessMessages e cfg w = Some y"
  obtain g w1 where g: "getChannel e (ChatForWatch (TgApp cfg)) w = (g, w1)"
    by (cases "getChannel e (ChatForWatch (TgApp cfg)) w")
  have w1: "channel_lookups w1 =
      channel_lookups w @ [[\<lparr>ic_ChannelID = ChatForWatch (TgApp cfg), ic_AccessHash = 0\<rparr>]]"
    using getChannel_world [of e "ChatForWatch (TgApp cfg)" w] g by simp
  show "channel_lookups (snd y) =
        channel_lookups w @ [[\<lparr>ic_ChannelID = ChatForWatch (TgApp cfg), ic_AccessHash = 0\<rparr>]]"
  proof (cases g)
    case (Inl err)
    with run g w1 show ?thesis
      by (auto simp: fetchAndProcessMessages_def)
  next
    case (Inr channel)
    with run g have "fetchLoop e cfg
        \<lparr>ip_ChannelID = chan_ID channel, ip_AccessHash = chan_AccessHash channel\<rparr> 0 w1 = Some y"
      by (simp add: fetchAndProcessMessages_def)
    then have "channel_lookups (snd y) = channel_lookups w1"
      by (rule fetchLoop_channel_lookups)
    with w1 show ?thesis by simp
  qed
qed

theorem lookup_on_every_event_witness:
  "channel_lookups (snd (handleUpdate (sample_env []) cfg42
      (UpdateNewChannelMessage (Message (hello 7 5))) world0)) =
     [[\<lparr>ic_ChannelID = 5, ic_AccessHash = 0\<rparr>]] \<and>
   (\<exists>y. fetchAndProcessMessages (sample_env three_entries) cfg42 world0 = Some y \<and>
      channel_lookups (snd y) = [[\<lparr>ic_ChannelID = 42, ic_AccessHash = 0\<rparr>]])"
proof -
  note every = lookup_on_every_event [of "UpdateNewChannelMessage (Message (hello 7 5))" "hello 7 5" 5
      "sample_env []" cfg42 world0]
  have "channel_lookups (snd (handleUpdate (sample_env []) cfg42
      (UpdateNewChannelMessage (Message (hello 7 5))) world0)) =
      channel_lookups world0 @ [[\<lparr>ic_ChannelID = 5, ic_AccessHash = 0\<rparr>]]"
    by (intro every [THEN conjunct1, THEN mp]) (simp add: hello_def)
  then have live: "channel_lookups (snd (handleUpdate (sample_env []) cfg42
      (UpdateNewChannelMessage (Message (hello 7 5))) world0)) =
      [[\<lparr>ic_ChannelID = 5, ic_AccessHash = 0\<rparr>]]"
    by (simp add: world0_def)
  have g: "fst (getChannel (sample_env three_entries) (ChatForWatch (TgApp cfg42)) world0) =
      Inr \<lparr>chan_ID = 42, chan_AccessHash = 77\<rparr>"
    by (simp add: getChannel_sample cfg42_def)
  note run = fetchAndProcessMessages_history [OF serves_history_sample descending_three_entries g]
  note returned = lookup_on_every_event [of _ _ _ "sample_env three_entries" cfg42 world0,
      THEN conjunct2, THEN mp, OF run]
  from run returned have "\<exists>y. fetchAndProcessMessages (sample_env three_entries) cfg42 world0 = Some y \<and>
      channel_lookups (snd y) = [[\<lparr>ic_ChannelID = 42, ic_AccessHash = 0\<rparr>]]"
    by (simp add: world0_def cfg42_def)
  with live show ?thesis by (intro conjI)
qed


text \<open>Claim C10 as it is stated fails at two events of the watched chat 42, a new message
  and an edit: the two handler calls make two lookups of channel 42.\<close>

theorem lookup_repeated_counterexample:
  "channel_lookups
     (snd (handleUpdate (sample_env []) cfg42 (UpdateEditChannelMessage (Message (hello 8 42)))
        (snd (handleUpdate (sample_env []) cfg42 (UpdateNewChannelMessage (Message (hello 7 42)))
           world0)))) =
   [[\<lparr>ic_ChannelID = 42, ic_AccessHash = 0\<rparr>], [\<lparr>ic_ChannelID = 42, ic_AccessHash = 0\<rparr>]]"
proof -
  have p: "msg_PeerID (hello 7 42) = PeerChannel 42" "msg_PeerID (hello 8 42) = PeerChannel 42"
    by (simp_all add: hello_def)
  show ?thesis
    by (simp add: handleUpdate_channel_lookups [OF disjI1 [OF refl] p(1)]
        handleUpdate_channel_lookups [OF disjI2 [OF refl] p(2)] world0_def)
qed

end
